theory Spec2Isabelle
  imports Main "HOL-Library.AList" "HOL-Library.Word"
begin

section \<open>Python values\<close>

text \<open>
  The pipeline of \<^verbatim>\<open>dataflow/log_processing_pipeline.py\<close> works on the values
  that \<^verbatim>\<open>json.loads\<close> returns and on the raw payloads of Pub/Sub.

  A Python \<^verbatim>\<open>str\<close> is a sequence of Unicode code points, and \<^verbatim>\<open>len\<close> and slicing
  count code points; it is modelled as a list of naturals. A \<^verbatim>\<open>bytes\<close> object is a
  list of 8-bit characters. A literal of the source is written \<open>lit ''...''\<close>.
\<close>

type_synonym pystr = "nat list"
type_synonym bytes = "char list"

definition lit :: "string \<Rightarrow> pystr" where
  "lit s = map of_char s"

text \<open>
  A \<^verbatim>\<open>float\<close> is its IEEE 754 binary64 bit pattern. The pipeline carries floats
  around and never computes with them.
\<close>

type_synonym pyfloat = "64 word"

text \<open>
  A \<^verbatim>\<open>dict\<close> is an association list in insertion order, read with \<open>map_of\<close> and
  written with \<open>AList.update\<close> (which replaces the value of a present key in place and
  appends an absent key, as Python does).
\<close>

datatype pyval =
    PNone
  | PBool bool
  | PInt int
  | PFloat pyfloat
  | PStr pystr
  | PBytes bytes
  | PList "pyval list"
  | PDict "(pystr \<times> pyval) list"

text \<open>The exceptions that the modelled code can raise.\<close>

datatype error =
    UnicodeDecodeError
  | JSONDecodeError
  | AttributeError
  | TypeError
  | KeyError

text \<open>Sequencing of statements that may raise: the first exception ends the block.\<close>

definition ebind :: "error + 'a \<Rightarrow> ('a \<Rightarrow> error + 'b) \<Rightarrow> error + 'b" where
  "ebind x f = (case x of Inl e \<Rightarrow> Inl e | Inr v \<Rightarrow> f v)"

text \<open>
  \<^verbatim>\<open>obj.get(key, default)\<close>: only a \<^verbatim>\<open>dict\<close> has the method; on every other value
  of \<open>pyval\<close> the attribute lookup raises \<^verbatim>\<open>AttributeError\<close>.
\<close>

fun py_get :: "pyval \<Rightarrow> pystr \<Rightarrow> pyval \<Rightarrow> error + pyval" where
  "py_get (PDict d) k dflt = Inr (case map_of d k of Some v \<Rightarrow> v | None \<Rightarrow> dflt)"
| "py_get _ k dflt = Inl AttributeError"

section \<open>ParseLogEntry\<close>

text \<open>
  The two counters created in \<^verbatim>\<open>ParseLogEntry.__init__\<close>.
\<close>

record counters =
  parse_errors :: nat
  valid_logs :: nat

text \<open>
  The body of the \<^verbatim>\<open>try\<close> block of \<^verbatim>\<open>ParseLogEntry.process\<close> up to the dictionary
  display. \<^verbatim>\<open>bytes.decode('utf-8')\<close> and \<^verbatim>\<open>json.loads\<close> are library functions and
  are parameters of the model (\<open>decode\<close> and \<open>loads\<close>); each returns its result or the
  exception it raises.
\<close>

definition decode_element :: "(bytes \<Rightarrow> error + pystr) \<Rightarrow> pyval \<Rightarrow> error + pyval" where
  "decode_element decode element =
     (case element of
        PBytes b \<Rightarrow> ebind (decode b) (\<lambda>s. Inr (PStr s))
      | _ \<Rightarrow> Inr element)"

definition load_element :: "(pystr \<Rightarrow> error + pyval) \<Rightarrow> pyval \<Rightarrow> error + pyval" where
  "load_element loads element =
     (case element of
        PStr s \<Rightarrow> loads s
      | _ \<Rightarrow> Inr element)"

text \<open>
  The dictionary display \<^verbatim>\<open>processed_log = {...}\<close>: the entries are evaluated in
  order, and in a call the receiver is evaluated before the arguments.
\<close>

definition extract_fields :: "pyval \<Rightarrow> error + pyval" where
  "extract_fields log_data =
     ebind (py_get log_data (lit ''timestamp'') PNone) (\<lambda>v_timestamp.
     ebind (py_get log_data (lit ''severity'') (PStr (lit ''INFO''))) (\<lambda>v_severity.
     ebind (py_get log_data (lit ''message'') (PStr (lit ''''))) (\<lambda>v_fallback.
     ebind (py_get log_data (lit ''textPayload'') v_fallback) (\<lambda>v_message.
     ebind (py_get log_data (lit ''resource'') (PDict [])) (\<lambda>r1.
     ebind (py_get r1 (lit ''type'') (PStr (lit ''unknown''))) (\<lambda>v_resource_type.
     ebind (py_get log_data (lit ''resource'') (PDict [])) (\<lambda>r2.
     ebind (py_get r2 (lit ''labels'') (PDict [])) (\<lambda>l2.
     ebind (py_get l2 (lit ''project_id'') (PStr (lit ''unknown''))) (\<lambda>v_project_id.
     ebind (py_get log_data (lit ''trace'') PNone) (\<lambda>v_trace_id.
     ebind (py_get log_data (lit ''spanId'') PNone) (\<lambda>v_span_id.
     ebind (py_get log_data (lit ''labels'') (PDict [])) (\<lambda>v_labels.
     ebind (py_get log_data (lit ''resource'') (PDict [])) (\<lambda>r3.
     ebind (py_get r3 (lit ''labels'') (PDict [])) (\<lambda>l3.
     ebind (py_get l3 (lit ''container_name'') (PStr (lit ''''))) (\<lambda>v_resource_name.
     ebind (py_get log_data (lit ''sourceLocation'') (PDict [])) (\<lambda>v_source_location.
     Inr (PDict
       [(lit ''timestamp'', v_timestamp),
        (lit ''severity'', v_severity),
        (lit ''message'', v_message),
        (lit ''resource_type'', v_resource_type),
        (lit ''project_id'', v_project_id),
        (lit ''trace_id'', v_trace_id),
        (lit ''span_id'', v_span_id),
        (lit ''labels'', v_labels),
        (lit ''resource_name'', v_resource_name),
        (lit ''source_location'', v_source_location)])))))))))))))))))"

text \<open>Lines 37 to 40: the document that the fields are read from.\<close>

definition deserialize ::
  "(bytes \<Rightarrow> error + pystr) \<Rightarrow> (pystr \<Rightarrow> error + pyval) \<Rightarrow> pyval \<Rightarrow> error + pyval" where
  "deserialize decode loads element =
     ebind (decode_element decode element) (\<lambda>element'. load_element loads element')"

definition parse_body ::
  "(bytes \<Rightarrow> error + pystr) \<Rightarrow> (pystr \<Rightarrow> error + pyval) \<Rightarrow> pyval \<Rightarrow> error + pyval" where
  "parse_body decode loads element =
     ebind (deserialize decode loads element) (\<lambda>log_data. extract_fields log_data)"

text \<open>
  \<^verbatim>\<open>ParseLogEntry.process\<close>: the list of the records yielded and the counters
  afterwards. Every exception of the body is caught by \<^verbatim>\<open>except Exception\<close>.
\<close>

definition ParseLogEntry_process ::
  "(bytes \<Rightarrow> error + pystr) \<Rightarrow> (pystr \<Rightarrow> error + pyval) \<Rightarrow> counters \<Rightarrow> pyval
     \<Rightarrow> pyval list \<times> counters" where
  "ParseLogEntry_process decode loads c element =
     (case parse_body decode loads element of
        Inr processed_log \<Rightarrow> ([processed_log], c\<lparr>valid_logs := valid_logs c + 1\<rparr>)
      | Inl e \<Rightarrow> ([], c\<lparr>parse_errors := parse_errors c + 1\<rparr>))"

section \<open>EnrichLogs\<close>

text \<open>\<^verbatim>\<open>len(obj)\<close>: defined on strings, bytes, lists and dictionaries only.\<close>

fun py_len :: "pyval \<Rightarrow> error + nat" where
  "py_len (PStr s) = Inr (length s)"
| "py_len (PBytes b) = Inr (length b)"
| "py_len (PList xs) = Inr (length xs)"
| "py_len (PDict d) = Inr (length (remdups (map fst d)))"
| "py_len _ = Inl TypeError"

text \<open>\<^verbatim>\<open>obj[key] = value\<close> with a string key: only a dictionary accepts it.\<close>

fun py_setitem :: "pyval \<Rightarrow> pystr \<Rightarrow> pyval \<Rightarrow> error + pyval" where
  "py_setitem (PDict d) k v = Inr (PDict (AList.update k v d))"
| "py_setitem _ k v = Inl TypeError"

text \<open>\<^verbatim>\<open>obj[key]\<close> with a string key.\<close>

fun py_getitem :: "pyval \<Rightarrow> pystr \<Rightarrow> error + pyval" where
  "py_getitem (PDict d) k = (case map_of d k of Some v \<Rightarrow> Inr v | None \<Rightarrow> Inl KeyError)"
| "py_getitem _ k = Inl TypeError"

text \<open>
  \<^verbatim>\<open>obj[:n]\<close>: the first \<open>n\<close> items of a sequence. A dictionary does not take a
  slice as a key (\<^verbatim>\<open>TypeError\<close>, unhashable, before Python 3.12 and \<^verbatim>\<open>KeyError\<close>
  from then on; nothing below depends on which).
\<close>

fun py_prefix :: "pyval \<Rightarrow> nat \<Rightarrow> error + pyval" where
  "py_prefix (PStr s) n = Inr (PStr (take n s))"
| "py_prefix (PBytes b) n = Inr (PBytes (take n b))"
| "py_prefix (PList xs) n = Inr (PList (take n xs))"
| "py_prefix _ n = Inl TypeError"

text \<open>\<^verbatim>\<open>obj + '...'\<close> with a string on the right: only a string can be extended by it.\<close>

fun py_add_str :: "pyval \<Rightarrow> pystr \<Rightarrow> error + pyval" where
  "py_add_str (PStr a) s = Inr (PStr (a @ s))"
| "py_add_str _ s = Inl TypeError"

definition TRUNCATED :: pystr where
  "TRUNCATED = lit ''...[TRUNCATED]''"

text \<open>
  \<^verbatim>\<open>EnrichLogs.process\<close>. The parameter \<open>now\<close> is the string that
  \<^verbatim>\<open>datetime.utcnow().isoformat()\<close> returns at the call. The result is the element
  yielded, or the exception that leaves the method (it has no handler).
\<close>

definition EnrichLogs_process :: "pystr \<Rightarrow> pyval \<Rightarrow> error + pyval" where
  "EnrichLogs_process now element =
     ebind (py_setitem element (lit ''ingestion_time'') (PStr now)) (\<lambda>element1.
     ebind (py_setitem element1 (lit ''pipeline_version'') (PStr (lit ''1.0.0''))) (\<lambda>element2.
     ebind (py_get element2 (lit ''message'') (PStr (lit ''''))) (\<lambda>m.
     ebind (py_len m) (\<lambda>n.
       if n > 1000 then
         ebind (py_getitem element2 (lit ''message'')) (\<lambda>m'.
         ebind (py_prefix m' 1000) (\<lambda>pre.
         ebind (py_add_str pre TRUNCATED) (\<lambda>truncated.
         py_setitem element2 (lit ''message'') truncated)))
       else Inr element2))))"

section \<open>DetermineShardTable\<close>

text \<open>
  The built-in \<^verbatim>\<open>hash\<close> is a parameter: one function for the whole run of the
  interpreter (string hashing is seeded at start-up). Lists and dictionaries are not
  hashable.
\<close>

definition py_hash :: "(pyval \<Rightarrow> int) \<Rightarrow> pyval \<Rightarrow> error + int" where
  "py_hash hash v =
     (case v of
        PList xs \<Rightarrow> Inl TypeError
      | PDict d \<Rightarrow> Inl TypeError
      | _ \<Rightarrow> Inr (hash v))"

text \<open>The decimal digits of an integer, as an f-string formats it.\<close>

function str_nat :: "nat \<Rightarrow> pystr" where
  "str_nat n = (if n < 10 then [48 + n] else str_nat (n div 10) @ [48 + n mod 10])"
  by pat_completeness auto
termination
  by (relation "measure id") auto

declare str_nat.simps [simp del]

definition str_int :: "int \<Rightarrow> pystr" where
  "str_int i = (if i < 0 then 45 # str_nat (nat (- i)) else str_nat (nat i))"

definition shard_table_name :: "int \<Rightarrow> pystr" where
  "shard_table_name shard_num = lit ''real_time_logs_shard_'' @ str_int shard_num"

text \<open>
  \<^verbatim>\<open>DetermineShardTable.process\<close>; \<open>shard_of\<close> is the value of \<^verbatim>\<open>shard_num\<close> for a
  given \<^verbatim>\<open>project_id\<close>. Python's \<^verbatim>\<open>%\<close> with a positive right operand is the
  non-negative remainder, as \<open>mod\<close> on \<open>int\<close>.
\<close>

definition shard_of :: "(pyval \<Rightarrow> int) \<Rightarrow> pyval \<Rightarrow> error + int" where
  "shard_of hash pid = ebind (py_hash hash pid) (\<lambda>project_hash. Inr ((project_hash mod 4) + 1))"

definition DetermineShardTable_process ::
  "(pyval \<Rightarrow> int) \<Rightarrow> pyval \<Rightarrow> error + (pystr \<times> pyval)" where
  "DetermineShardTable_process hash element =
     ebind (py_get element (lit ''project_id'') (PStr (lit ''''))) (\<lambda>pid.
     ebind (shard_of hash pid) (\<lambda>shard_num.
     Inr (shard_table_name shard_num, element)))"

section \<open>run_pipeline\<close>

text \<open>The three arguments that \<^verbatim>\<open>run_pipeline\<close> declares on its argument parser.\<close>

record known_args =
  input_subscription :: pystr
  output_dataset :: pystr
  project_id :: pystr

text \<open>
  One pass of the loop \<^verbatim>\<open>for shard_num in range(1, 5)\<close> adds a filter on the table name
  and a \<^verbatim>\<open>WriteToBigQuery\<close> on a table.
\<close>

record shard_write =
  filter_name :: pystr
  table :: pystr

text \<open>
  What \<^verbatim>\<open>run_pipeline\<close> builds: the subscription read, the size of the fixed windows
  in seconds, and the write stages.
\<close>

record pipeline =
  subscription :: pystr
  window_size :: nat
  shard_writes :: "shard_write list"

definition shard_write_of :: "known_args \<Rightarrow> int \<Rightarrow> shard_write" where
  "shard_write_of args shard_num =
     \<lparr>filter_name = lit ''real_time_logs_shard_'' @ str_int shard_num,
      table = project_id args @ lit '':'' @ output_dataset args @ lit ''.''
                @ shard_table_name shard_num\<rparr>"

text \<open>
  \<^verbatim>\<open>run_pipeline\<close>. \<^verbatim>\<open>ArgumentParser.parse_known_args\<close> is a library function and a
  parameter: it returns the three known arguments and the remaining command line, or
  ends the process (\<open>None\<close>) when a required argument is missing.
\<close>

definition run_pipeline ::
  "(pystr list \<Rightarrow> (known_args \<times> pystr list) option) \<Rightarrow> pystr list \<Rightarrow> pipeline option" where
  "run_pipeline parse_known_args argv =
     (case parse_known_args argv of
        None \<Rightarrow> None
      | Some (args, pipeline_args) \<Rightarrow>
          Some \<lparr>subscription = input_subscription args,
                window_size = 60,
                shard_writes = map (shard_write_of args) [1..4]\<rparr>)"

text \<open>
  The rows that reach one write stage from the pairs that \<^verbatim>\<open>DetermineShardTable\<close>
  yields: \<^verbatim>\<open>beam.Filter(lambda x: x[0] == ...)\<close> and then \<^verbatim>\<open>beam.Map(lambda x: x[1])\<close>.
\<close>

definition shard_rows :: "shard_write \<Rightarrow> (pystr \<times> pyval) list \<Rightarrow> pyval list" where
  "shard_rows w pairs = map snd (filter (\<lambda>x. fst x = filter_name w) pairs)"

section \<open>Notions used to state the properties\<close>

text \<open>The value stored under a key of a record, if the record is a dictionary with that key.\<close>

definition field :: "pyval \<Rightarrow> pystr \<Rightarrow> pyval option" where
  "field v k = (case v of PDict d \<Rightarrow> map_of d k | _ \<Rightarrow> None)"

text \<open>
  The source field at a path of keys of a document: \<open>None\<close> when a key of the path is
  absent (or when the path runs into a value that is not a dictionary).
\<close>

fun source_field :: "pyval \<Rightarrow> pystr list \<Rightarrow> pyval option" where
  "source_field v [] = Some v"
| "source_field (PDict d) (k # ks) =
     (case map_of d k of None \<Rightarrow> None | Some v \<Rightarrow> source_field v ks)"
| "source_field _ (k # ks) = None"

definition or_default :: "pyval option \<Rightarrow> pyval \<Rightarrow> pyval" where
  "or_default x dflt = (case x of Some v \<Rightarrow> v | None \<Rightarrow> dflt)"

definition mapping_or_absent :: "pyval option \<Rightarrow> bool" where
  "mapping_or_absent x = (case x of None \<Rightarrow> True | Some (PDict d) \<Rightarrow> True | Some _ \<Rightarrow> False)"

text \<open>
  The documents on which no \<^verbatim>\<open>.get\<close> of the dictionary display is called on a value
  without that method: \<^verbatim>\<open>resource\<close> and, inside it, \<^verbatim>\<open>labels\<close> are dictionaries where
  they are present.
\<close>

definition resource_shape_ok :: "pyval \<Rightarrow> bool" where
  "resource_shape_ok log_data \<longleftrightarrow>
     mapping_or_absent (source_field log_data [lit ''resource'']) \<and>
     mapping_or_absent (source_field log_data [lit ''resource'', lit ''labels''])"

definition is_dict :: "pyval \<Rightarrow> bool" where
  "is_dict v = (case v of PDict d \<Rightarrow> True | _ \<Rightarrow> False)"

text \<open>The two fields that enrichment is compared on.\<close>

definition version_and_message :: "pyval \<Rightarrow> pyval option \<times> pyval option" where
  "version_and_message r = (field r (lit ''pipeline_version''), field r (lit ''message''))"

definition enrich_twice :: "pystr \<Rightarrow> pystr \<Rightarrow> pyval \<Rightarrow> error + pyval" where
  "enrich_twice t1 t2 element =
     ebind (EnrichLogs_process t1 element) (\<lambda>element'. EnrichLogs_process t2 element')"

section \<open>Library functions at the inputs of the examples\<close>

text \<open>
  On bytes below 128, \<^verbatim>\<open>bytes.decode('utf-8')\<close> returns the code points of the bytes;
  \<open>decode_ascii\<close> agrees with it on such input and is used only there.
\<close>

definition decode_ascii :: "bytes \<Rightarrow> error + pystr" where
  "decode_ascii b =
     (if list_all (\<lambda>c. (of_char c :: nat) < 128) b then Inr (lit b)
      else Inl UnicodeDecodeError)"

text \<open>
  The value of \<^verbatim>\<open>json.loads\<close> at the texts of the examples. A text that is not in the
  table stands for a text that is not JSON, such as \<^verbatim>\<open>not json\<close>.
\<close>

definition scenario_json :: string where
  "scenario_json =
     ''{\"severity\":\"ERROR\",\"textPayload\":\"boom\",\"resource\":{\"labels\":{\"project_id\":\"proj-7\"}}}''"

definition sample_documents :: "(pystr \<times> pyval) list" where
  "sample_documents =
     [(lit scenario_json,
       PDict [(lit ''severity'', PStr (lit ''ERROR'')),
              (lit ''textPayload'', PStr (lit ''boom'')),
              (lit ''resource'',
                 PDict [(lit ''labels'', PDict [(lit ''project_id'', PStr (lit ''proj-7''))])])]),
      (lit ''{}'', PDict []),
      (lit ''{\"textPayload\":\"boom\",\"resource\":null}'',
       PDict [(lit ''textPayload'', PStr (lit ''boom'')), (lit ''resource'', PNone)]),
      (lit ''{\"resource\":\"gce_instance\"}'',
       PDict [(lit ''resource'', PStr (lit ''gce_instance''))]),
      (lit ''{\"textPayload\":5}'', PDict [(lit ''textPayload'', PInt 5)]),
      (lit ''[1, 2]'', PList [PInt 1, PInt 2]),
      (lit ''null'', PNone)]"

definition sample_loads :: "pystr \<Rightarrow> error + pyval" where
  "sample_loads s =
     (case map_of sample_documents s of Some v \<Rightarrow> Inr v | None \<Rightarrow> Inl JSONDecodeError)"

text \<open>A hash function for the examples: any function to the integers can stand for \<^verbatim>\<open>hash\<close>.\<close>

definition sample_hash :: "pyval \<Rightarrow> int" where
  "sample_hash v = (case v of PStr s \<Rightarrow> int (sum_list s) - 1000 | _ \<Rightarrow> 0)"

text \<open>
  \<^verbatim>\<open>parse_known_args\<close> for the parser of \<^verbatim>\<open>run_pipeline\<close> on command lines made of
  \<^verbatim>\<open>--name value\<close> pairs: the three declared options are collected, everything else is
  returned as the remaining command line, and a missing required option ends the process.
\<close>

definition known_options :: "pystr list" where
  "known_options = [lit ''--input_subscription'', lit ''--output_dataset'', lit ''--project_id'']"

fun scan_args :: "pystr list \<Rightarrow> (pystr \<times> pystr) list \<times> pystr list" where
  "scan_args [] = ([], [])"
| "scan_args [a] = ([], [a])"
| "scan_args (a # v # rest) =
     (if a \<in> set known_options
      then (case scan_args rest of (known, unknown) \<Rightarrow> (known @ [(a, v)], unknown))
      else (case scan_args (v # rest) of (known, unknown) \<Rightarrow> (known, a # unknown)))"

definition sample_parse_known_args :: "pystr list \<Rightarrow> (known_args \<times> pystr list) option" where
  "sample_parse_known_args argv =
     (case scan_args argv of (known, unknown) \<Rightarrow>
        (case (map_of known (lit ''--input_subscription''),
               map_of known (lit ''--output_dataset''),
               map_of known (lit ''--project_id'')) of
           (Some s, Some d, Some p) \<Rightarrow>
             Some (\<lparr>input_subscription = s, output_dataset = d, project_id = p\<rparr>, unknown)
         | _ \<Rightarrow> None))"

section \<open>Basic facts\<close>

lemma lit_eq_iff [simp]: "lit a = lit b \<longleftrightarrow> a = b"
  by (simp add: lit_def inj_map_eq_map [OF inj_of_char])

lemma length_lit [simp]: "length (lit s) = length s"
  by (simp add: lit_def)

lemma ebind_Inl [simp]: "ebind (Inl e) f = Inl e"
  by (simp add: ebind_def)

lemma ebind_Inr [simp]: "ebind (Inr v) f = f v"
  by (simp add: ebind_def)

lemma ebind_eq_Inr: "ebind x f = Inr y \<longleftrightarrow> (\<exists>v. x = Inr v \<and> f v = Inr y)"
  by (cases x) simp_all

lemma py_get_dict: "py_get (PDict d) k dflt = Inr (or_default (map_of d k) dflt)"
  by (simp add: or_default_def)

lemma py_get_not_dict: "\<not> is_dict v \<Longrightarrow> py_get v k dflt = Inl AttributeError"
  by (cases v) (simp_all add: is_dict_def)

lemma extract_fields_not_dict: "\<not> is_dict v \<Longrightarrow> extract_fields v = Inl AttributeError"
  by (simp add: extract_fields_def py_get_not_dict)

lemma source_field_top: "source_field (PDict d) [k] = map_of d k"
  by (simp split: option.splits)

lemma shape_ok_nested:
  assumes "resource_shape_ok (PDict d)"
  obtains r l where
    "or_default (map_of d (lit ''resource'')) (PDict []) = PDict r"
    "or_default (map_of r (lit ''labels'')) (PDict []) = PDict l"
    "\<And>k. source_field (PDict d) [lit ''resource'', k] = map_of r k"
    "\<And>k. source_field (PDict d) [lit ''resource'', lit ''labels'', k] = map_of l k"
proof (cases "map_of d (lit ''resource'')")
  case None
  show ?thesis
    by (rule that [of "[]" "[]"]) (simp_all add: None or_default_def)
next
  case (Some v)
  with assms obtain r where v: "v = PDict r"
    by (cases v) (simp_all add: resource_shape_ok_def mapping_or_absent_def)
  show ?thesis
  proof (cases "map_of r (lit ''labels'')")
    case None
    show ?thesis
      by (rule that [of r "[]"]) (simp_all add: Some v None or_default_def split: option.splits)
  next
    case inner: (Some w)
    with assms Some v obtain l where w: "w = PDict l"
      by (cases w) (simp_all add: resource_shape_ok_def mapping_or_absent_def)
    show ?thesis
      by (rule that [of r l]) (simp_all add: Some v inner w or_default_def split: option.splits)
  qed
qed

lemma extract_fields_ok:
  assumes "resource_shape_ok (PDict d)"
  shows "extract_fields (PDict d) = Inr (PDict
       [(lit ''timestamp'', or_default (source_field (PDict d) [lit ''timestamp'']) PNone),
        (lit ''severity'', or_default (source_field (PDict d) [lit ''severity'']) (PStr (lit ''INFO''))),
        (lit ''message'', or_default (source_field (PDict d) [lit ''textPayload''])
           (or_default (source_field (PDict d) [lit ''message'']) (PStr (lit '''')))),
        (lit ''resource_type'',
           or_default (source_field (PDict d) [lit ''resource'', lit ''type'']) (PStr (lit ''unknown''))),
        (lit ''project_id'',
           or_default (source_field (PDict d) [lit ''resource'', lit ''labels'', lit ''project_id''])
             (PStr (lit ''unknown''))),
        (lit ''trace_id'', or_default (source_field (PDict d) [lit ''trace'']) PNone),
        (lit ''span_id'', or_default (source_field (PDict d) [lit ''spanId'']) PNone),
        (lit ''labels'', or_default (source_field (PDict d) [lit ''labels'']) (PDict [])),
        (lit ''resource_name'',
           or_default (source_field (PDict d) [lit ''resource'', lit ''labels'', lit ''container_name''])
             (PStr (lit ''''))),
        (lit ''source_location'', or_default (source_field (PDict d) [lit ''sourceLocation'']) (PDict []))])"
proof -
  from assms obtain r l where
    r: "or_default (map_of d (lit ''resource'')) (PDict []) = PDict r" and
    l: "or_default (map_of r (lit ''labels'')) (PDict []) = PDict l" and
    sr: "\<And>k. source_field (PDict d) [lit ''resource'', k] = map_of r k" and
    sl: "\<And>k. source_field (PDict d) [lit ''resource'', lit ''labels'', k] = map_of l k"
    using shape_ok_nested [OF assms] by blast
  show ?thesis
    unfolding extract_fields_def
    by (simp only: py_get_dict ebind_Inr r l sr sl source_field_top)
qed

lemma extract_fields_bad_shape:
  assumes "\<not> resource_shape_ok (PDict d)"
  shows "extract_fields (PDict d) = Inl AttributeError"
proof (cases "map_of d (lit ''resource'')")
  case None
  with assms show ?thesis
    by (simp add: resource_shape_ok_def mapping_or_absent_def)
next
  case (Some v)
  show ?thesis
  proof (cases "is_dict v")
    case False
    then have "py_get v k dflt = Inl AttributeError" for k dflt
      by (rule py_get_not_dict)
    then show ?thesis
      unfolding extract_fields_def by (simp add: Some)
  next
    case True
    then obtain r where v: "v = PDict r"
      by (cases v) (simp_all add: is_dict_def)
    from assms Some v obtain w where w: "map_of r (lit ''labels'') = Some w" "\<not> is_dict w"
      by (auto simp: resource_shape_ok_def mapping_or_absent_def is_dict_def
          split: option.splits pyval.splits)
    from w(2) have "py_get w k dflt = Inl AttributeError" for k dflt
      by (rule py_get_not_dict)
    then show ?thesis
      unfolding extract_fields_def by (simp add: Some v w(1))
  qed
qed

lemma process_of_body_Inr:
  "parse_body decode loads element = Inr r \<Longrightarrow>
   ParseLogEntry_process decode loads c element = ([r], c\<lparr>valid_logs := valid_logs c + 1\<rparr>)"
  by (simp add: ParseLogEntry_process_def)

lemma process_of_body_Inl:
  "parse_body decode loads element = Inl e \<Longrightarrow>
   ParseLogEntry_process decode loads c element = ([], c\<lparr>parse_errors := parse_errors c + 1\<rparr>)"
  by (simp add: ParseLogEntry_process_def)

text \<open>The example inputs, read as bytes from the subscription.\<close>

lemma sample_bytes:
  "deserialize decode_ascii sample_loads (PBytes ''not json'') = Inl JSONDecodeError"
  "deserialize decode_ascii sample_loads (PBytes ''[1, 2]'') = Inr (PList [PInt 1, PInt 2])"
  "deserialize decode_ascii sample_loads (PBytes ''{}'') = Inr (PDict [])"
  "deserialize decode_ascii sample_loads (PBytes scenario_json) =
     Inr (PDict [(lit ''severity'', PStr (lit ''ERROR'')),
              (lit ''textPayload'', PStr (lit ''boom'')),
              (lit ''resource'',
                 PDict [(lit ''labels'', PDict [(lit ''project_id'', PStr (lit ''proj-7''))])])])"
  "deserialize decode_ascii sample_loads (PBytes ''{\"textPayload\":\"boom\",\"resource\":null}'') =
     Inr (PDict [(lit ''textPayload'', PStr (lit ''boom'')), (lit ''resource'', PNone)])"
  "deserialize decode_ascii sample_loads (PBytes ''{\"resource\":\"gce_instance\"}'') =
     Inr (PDict [(lit ''resource'', PStr (lit ''gce_instance''))])"
  "deserialize decode_ascii sample_loads (PBytes ''{\"textPayload\":5}'') =
     Inr (PDict [(lit ''textPayload'', PInt 5)])"
  by (simp_all add: deserialize_def decode_element_def load_element_def decode_ascii_def
      sample_loads_def sample_documents_def scenario_json_def)

section \<open>The parser: counters and dropped input\<close>

text \<open>
  Claim C10. An input that deserializes to a value that is not a dictionary (a JSON array,
  number, string, boolean or null) yields no record and adds one to \<open>parse_errors\<close>,
  like malformed input: the first \<^verbatim>\<open>.get\<close> raises \<^verbatim>\<open>AttributeError\<close>, which the
  handler catches.
\<close>

theorem parse_non_object_dropped:
  assumes "deserialize decode loads element = Inr v" and "\<not> is_dict v"
  shows "ParseLogEntry_process decode loads c element =
           ([], c\<lparr>parse_errors := parse_errors c + 1\<rparr>)"
proof -
  from assms have "parse_body decode loads element = Inl AttributeError"
    by (simp add: parse_body_def extract_fields_not_dict)
  then show ?thesis
    by (rule process_of_body_Inl)
qed

theorem parse_non_object_dropped_witness:
  "deserialize decode_ascii sample_loads (PBytes ''[1, 2]'') = Inr (PList [PInt 1, PInt 2]) \<and>
   \<not> is_dict (PList [PInt 1, PInt 2]) \<and>
   ParseLogEntry_process decode_ascii sample_loads \<lparr>parse_errors = 0, valid_logs = 0\<rparr>
       (PBytes ''[1, 2]'') = ([], \<lparr>parse_errors = 1, valid_logs = 0\<rparr>)"
proof -
  have d: "deserialize decode_ascii sample_loads (PBytes ''[1, 2]'') = Inr (PList [PInt 1, PInt 2])"
    by (rule sample_bytes)
  have n: "\<not> is_dict (PList [PInt 1, PInt 2])"
    by (simp add: is_dict_def)
  show ?thesis
    using d n parse_non_object_dropped [OF d n, of "\<lparr>parse_errors = 0, valid_logs = 0\<rparr>"]
    by simp
qed

text \<open>
  Claim C3. When the input cannot be deserialized (decoding or \<^verbatim>\<open>json.loads\<close> raises),
  no record is yielded, \<open>parse_errors\<close> grows by one and \<open>valid_logs\<close> is unchanged.
  When the body of \<^verbatim>\<open>process\<close> reaches the \<^verbatim>\<open>yield\<close> with a record, exactly that
  record is yielded, \<open>valid_logs\<close> grows by one and \<open>parse_errors\<close> is unchanged.
\<close>

theorem parse_counters:
  "(deserialize decode loads element = Inl e \<longrightarrow>
      fst (ParseLogEntry_process decode loads c element) = [] \<and>
      parse_errors (snd (ParseLogEntry_process decode loads c element)) = parse_errors c + 1 \<and>
      valid_logs (snd (ParseLogEntry_process decode loads c element)) = valid_logs c) \<and>
   (parse_body decode loads element = Inr r \<longrightarrow>
      fst (ParseLogEntry_process decode loads c element) = [r] \<and>
      valid_logs (snd (ParseLogEntry_process decode loads c element)) = valid_logs c + 1 \<and>
      parse_errors (snd (ParseLogEntry_process decode loads c element)) = parse_errors c)"
proof (intro conjI impI)
  assume "deserialize decode loads element = Inl e"
  then have b: "parse_body decode loads element = Inl e"
    by (simp add: parse_body_def)
  show "fst (ParseLogEntry_process decode loads c element) = []"
    and "parse_errors (snd (ParseLogEntry_process decode loads c element)) = parse_errors c + 1"
    and "valid_logs (snd (ParseLogEntry_process decode loads c element)) = valid_logs c"
    by (simp_all add: process_of_body_Inl [OF b])
next
  assume b: "parse_body decode loads element = Inr r"
  show "fst (ParseLogEntry_process decode loads c element) = [r]"
    and "valid_logs (snd (ParseLogEntry_process decode loads c element)) = valid_logs c + 1"
    and "parse_errors (snd (ParseLogEntry_process decode loads c element)) = parse_errors c"
    by (simp_all add: process_of_body_Inr [OF b])
qed

text \<open>The scenario of the specification: the raw bytes \<^verbatim>\<open>b"not json"\<close>; and an empty object.\<close>

theorem parse_counters_witness:
  "deserialize decode_ascii sample_loads (PBytes ''not json'') = Inl JSONDecodeError \<and>
   ParseLogEntry_process decode_ascii sample_loads \<lparr>parse_errors = 3, valid_logs = 5\<rparr>
       (PBytes ''not json'') = ([], \<lparr>parse_errors = 4, valid_logs = 5\<rparr>) \<and>
   fst (ParseLogEntry_process decode_ascii sample_loads \<lparr>parse_errors = 3, valid_logs = 5\<rparr>
       (PBytes ''{}'')) \<noteq> [] \<and>
   snd (ParseLogEntry_process decode_ascii sample_loads \<lparr>parse_errors = 3, valid_logs = 5\<rparr>
       (PBytes ''{}'')) = \<lparr>parse_errors = 3, valid_logs = 6\<rparr>"
proof -
  let ?c = "\<lparr>parse_errors = 3, valid_logs = 5\<rparr>"
  have d: "deserialize decode_ascii sample_loads (PBytes ''not json'') = Inl JSONDecodeError"
    by (rule sample_bytes)
  have "resource_shape_ok (PDict [])"
    by (simp add: resource_shape_ok_def mapping_or_absent_def)
  then obtain r where "extract_fields (PDict []) = Inr r"
    using extract_fields_ok by blast
  then have b: "parse_body decode_ascii sample_loads (PBytes ''{}'') = Inr r"
    by (simp add: parse_body_def sample_bytes)
  have bad: "ParseLogEntry_process decode_ascii sample_loads ?c (PBytes ''not json'')
               = ([], \<lparr>parse_errors = 4, valid_logs = 5\<rparr>)"
    using d parse_counters [of decode_ascii sample_loads "PBytes ''not json''" JSONDecodeError ?c]
    by (simp add: prod_eq_iff)
  have good: "fst (ParseLogEntry_process decode_ascii sample_loads ?c (PBytes ''{}'')) \<noteq> []
      \<and> snd (ParseLogEntry_process decode_ascii sample_loads ?c (PBytes ''{}''))
          = \<lparr>parse_errors = 3, valid_logs = 6\<rparr>"
    using b parse_counters [of decode_ascii sample_loads "PBytes ''{}''" _ ?c r]
    by simp
  show ?thesis
    using d bad good by simp
qed

lemma field_dict [simp]: "field (PDict d) k = map_of d k"
  by (simp add: field_def)

section \<open>The parser: extracted fields\<close>

text \<open>
  Claim C1, as amended. For every input that deserializes to a JSON object in which
  \<^verbatim>\<open>resource\<close> and \<^verbatim>\<open>resource.labels\<close> are objects where they are present, the parser
  yields one record and counts it in \<open>valid_logs\<close>, and each field of the record is the
  source value, or its documented default when the source is absent: \<^verbatim>\<open>severity\<close>
  defaults to \<^verbatim>\<open>INFO\<close>, \<^verbatim>\<open>message\<close> is \<^verbatim>\<open>textPayload\<close>, else \<^verbatim>\<open>message\<close>, else the
  empty string, \<^verbatim>\<open>resource_type\<close> and \<^verbatim>\<open>project_id\<close> (read from \<^verbatim>\<open>resource.type\<close> and
  \<^verbatim>\<open>resource.labels.project_id\<close>) default to \<^verbatim>\<open>unknown\<close>, \<^verbatim>\<open>labels\<close> defaults to the
  empty dictionary, and \<^verbatim>\<open>timestamp\<close>, \<^verbatim>\<open>trace_id\<close> and \<^verbatim>\<open>span_id\<close> are \<^verbatim>\<open>None\<close>.
\<close>

theorem parse_defaults:
  assumes "deserialize decode loads element = Inr (PDict d)"
    and "resource_shape_ok (PDict d)"
  shows "\<exists>r. ParseLogEntry_process decode loads c element
                = ([r], c\<lparr>valid_logs := valid_logs c + 1\<rparr>) \<and>
    field r (lit ''severity'')
      = Some (or_default (source_field (PDict d) [lit ''severity'']) (PStr (lit ''INFO''))) \<and>
    field r (lit ''message'')
      = Some (or_default (source_field (PDict d) [lit ''textPayload''])
               (or_default (source_field (PDict d) [lit ''message'']) (PStr (lit '''')))) \<and>
    field r (lit ''resource_type'')
      = Some (or_default (source_field (PDict d) [lit ''resource'', lit ''type''])
               (PStr (lit ''unknown''))) \<and>
    field r (lit ''project_id'')
      = Some (or_default (source_field (PDict d) [lit ''resource'', lit ''labels'', lit ''project_id''])
               (PStr (lit ''unknown''))) \<and>
    field r (lit ''labels'')
      = Some (or_default (source_field (PDict d) [lit ''labels'']) (PDict [])) \<and>
    field r (lit ''timestamp'')
      = Some (or_default (source_field (PDict d) [lit ''timestamp'']) PNone) \<and>
    field r (lit ''trace_id'')
      = Some (or_default (source_field (PDict d) [lit ''trace'']) PNone) \<and>
    field r (lit ''span_id'')
      = Some (or_default (source_field (PDict d) [lit ''spanId'']) PNone)"
proof -
  note e = extract_fields_ok [OF assms(2)]
  from assms(1) have "parse_body decode loads element = extract_fields (PDict d)"
    by (simp add: parse_body_def)
  with e have "ParseLogEntry_process decode loads c element
      = ([projr (extract_fields (PDict d))], c\<lparr>valid_logs := valid_logs c + 1\<rparr>)"
    by (simp add: ParseLogEntry_process_def)
  then show ?thesis
    by (simp add: e)
qed

text \<open>The scenario of the specification.\<close>

theorem parse_defaults_witness:
  "deserialize decode_ascii sample_loads (PBytes scenario_json) =
     Inr (PDict [(lit ''severity'', PStr (lit ''ERROR'')),
              (lit ''textPayload'', PStr (lit ''boom'')),
              (lit ''resource'',
                 PDict [(lit ''labels'', PDict [(lit ''project_id'', PStr (lit ''proj-7''))])])]) \<and>
   resource_shape_ok (PDict [(lit ''severity'', PStr (lit ''ERROR'')),
              (lit ''textPayload'', PStr (lit ''boom'')),
              (lit ''resource'',
                 PDict [(lit ''labels'', PDict [(lit ''project_id'', PStr (lit ''proj-7''))])])]) \<and>
   (\<exists>r. ParseLogEntry_process decode_ascii sample_loads \<lparr>parse_errors = 0, valid_logs = 0\<rparr>
          (PBytes scenario_json) = ([r], \<lparr>parse_errors = 0, valid_logs = 1\<rparr>) \<and>
        field r (lit ''severity'') = Some (PStr (lit ''ERROR'')) \<and>
        field r (lit ''message'') = Some (PStr (lit ''boom'')) \<and>
        field r (lit ''resource_type'') = Some (PStr (lit ''unknown'')) \<and>
        field r (lit ''project_id'') = Some (PStr (lit ''proj-7'')) \<and>
        field r (lit ''labels'') = Some (PDict []) \<and>
        field r (lit ''timestamp'') = Some PNone \<and>
        field r (lit ''trace_id'') = Some PNone \<and>
        field r (lit ''span_id'') = Some PNone)"
proof -
  let ?d = "[(lit ''severity'', PStr (lit ''ERROR'')),
              (lit ''textPayload'', PStr (lit ''boom'')),
              (lit ''resource'',
                 PDict [(lit ''labels'', PDict [(lit ''project_id'', PStr (lit ''proj-7''))])])]"
  have d: "deserialize decode_ascii sample_loads (PBytes scenario_json) = Inr (PDict ?d)"
    by (rule sample_bytes)
  have s: "resource_shape_ok (PDict ?d)"
    by (simp add: resource_shape_ok_def mapping_or_absent_def)
  from parse_defaults [OF d s, of "\<lparr>parse_errors = 0, valid_logs = 0\<rparr>"]
  have "\<exists>r. ParseLogEntry_process decode_ascii sample_loads \<lparr>parse_errors = 0, valid_logs = 0\<rparr>
          (PBytes scenario_json) = ([r], \<lparr>parse_errors = 0, valid_logs = 1\<rparr>) \<and>
        field r (lit ''severity'') = Some (PStr (lit ''ERROR'')) \<and>
        field r (lit ''message'') = Some (PStr (lit ''boom'')) \<and>
        field r (lit ''resource_type'') = Some (PStr (lit ''unknown'')) \<and>
        field r (lit ''project_id'') = Some (PStr (lit ''proj-7'')) \<and>
        field r (lit ''labels'') = Some (PDict []) \<and>
        field r (lit ''timestamp'') = Some PNone \<and>
        field r (lit ''trace_id'') = Some PNone \<and>
        field r (lit ''span_id'') = Some PNone"
    by (simp add: or_default_def)
  with d s show ?thesis
    by (intro conjI)
qed

text \<open>
  Claim C1 as stated fails: \<^verbatim>\<open>{"textPayload":"boom","resource":null}\<close> is a valid JSON
  object, and the parser yields no record for it (\<^verbatim>\<open>None\<close> has no \<^verbatim>\<open>.get\<close>).
\<close>

theorem parse_null_resource_dropped:
  "deserialize decode_ascii sample_loads (PBytes ''{\"textPayload\":\"boom\",\"resource\":null}'') =
     Inr (PDict [(lit ''textPayload'', PStr (lit ''boom'')), (lit ''resource'', PNone)]) \<and>
   ParseLogEntry_process decode_ascii sample_loads \<lparr>parse_errors = 0, valid_logs = 0\<rparr>
     (PBytes ''{\"textPayload\":\"boom\",\"resource\":null}'')
     = ([], \<lparr>parse_errors = 1, valid_logs = 0\<rparr>)"
  by (simp add: sample_bytes ParseLogEntry_process_def parse_body_def extract_fields_def)

text \<open>
  Claim C2, as amended. For a deserialized document, field extraction succeeds and the
  record is yielded exactly when the document is a dictionary in which \<^verbatim>\<open>resource\<close> is
  absent or a dictionary and \<^verbatim>\<open>resource.labels\<close> is absent or a dictionary. In every
  other case the \<^verbatim>\<open>.get\<close> on the value of the wrong type raises, the handler catches
  the exception, no record is yielded and \<open>parse_errors\<close> grows by one.
\<close>

theorem extraction_succeeds_iff:
  assumes "deserialize decode loads element = Inr v"
  shows "(is_dict v \<and> resource_shape_ok v \<longrightarrow>
            (\<exists>r. ParseLogEntry_process decode loads c element
                    = ([r], c\<lparr>valid_logs := valid_logs c + 1\<rparr>))) \<and>
         (\<not> (is_dict v \<and> resource_shape_ok v) \<longrightarrow>
            ParseLogEntry_process decode loads c element
              = ([], c\<lparr>parse_errors := parse_errors c + 1\<rparr>))"
proof (intro conjI impI)
  assume "is_dict v \<and> resource_shape_ok v"
  then obtain d where v: "v = PDict d" and ok: "resource_shape_ok (PDict d)"
    by (cases v) (simp_all add: is_dict_def)
  from extract_fields_ok [OF ok] obtain r where "extract_fields (PDict d) = Inr r"
    by blast
  with assms v have "parse_body decode loads element = Inr r"
    by (simp add: parse_body_def)
  then show "\<exists>r. ParseLogEntry_process decode loads c element
                    = ([r], c\<lparr>valid_logs := valid_logs c + 1\<rparr>)"
    using process_of_body_Inr by blast
next
  assume bad: "\<not> (is_dict v \<and> resource_shape_ok v)"
  have "extract_fields v = Inl AttributeError"
  proof (cases "is_dict v")
    case False
    then show ?thesis by (rule extract_fields_not_dict)
  next
    case True
    then obtain d where v: "v = PDict d"
      by (cases v) (simp_all add: is_dict_def)
    with bad True show ?thesis
      by (simp add: extract_fields_bad_shape)
  qed
  with assms have "parse_body decode loads element = Inl AttributeError"
    by (simp add: parse_body_def)
  then show "ParseLogEntry_process decode loads c element
              = ([], c\<lparr>parse_errors := parse_errors c + 1\<rparr>)"
    by (rule process_of_body_Inl)
qed

theorem extraction_succeeds_iff_witness:
  "(\<exists>r. ParseLogEntry_process decode_ascii sample_loads \<lparr>parse_errors = 0, valid_logs = 0\<rparr>
           (PBytes ''{}'') = ([r], \<lparr>parse_errors = 0, valid_logs = 1\<rparr>)) \<and>
   ParseLogEntry_process decode_ascii sample_loads \<lparr>parse_errors = 0, valid_logs = 0\<rparr>
     (PDict [(lit ''resource'', PDict [(lit ''labels'', PList [])])])
     = ([], \<lparr>parse_errors = 1, valid_logs = 0\<rparr>)"
proof -
  let ?c = "\<lparr>parse_errors = 0, valid_logs = 0\<rparr>"
  let ?bad = "PDict [(lit ''resource'', PDict [(lit ''labels'', PList [])])]"
  have d1: "deserialize decode_ascii sample_loads (PBytes ''{}'') = Inr (PDict [])"
    by (rule sample_bytes)
  have ok: "is_dict (PDict []) \<and> resource_shape_ok (PDict [])"
    by (simp add: is_dict_def resource_shape_ok_def mapping_or_absent_def)
  have d2: "deserialize decode_ascii sample_loads ?bad = Inr ?bad"
    by (simp add: deserialize_def decode_element_def load_element_def)
  have nok: "\<not> (is_dict ?bad \<and> resource_shape_ok ?bad)"
    by (simp add: is_dict_def resource_shape_ok_def mapping_or_absent_def)
  show ?thesis
    using ok nok extraction_succeeds_iff [OF d1, of ?c] extraction_succeeds_iff [OF d2, of ?c]
    by simp
qed

text \<open>
  Claim C2 as stated fails: when \<^verbatim>\<open>resource\<close> is a string, the record is dropped instead
  of being yielded with the default \<^verbatim>\<open>resource_type\<close>.
\<close>

theorem parse_string_resource_dropped:
  "deserialize decode_ascii sample_loads (PBytes ''{\"resource\":\"gce_instance\"}'') =
     Inr (PDict [(lit ''resource'', PStr (lit ''gce_instance''))]) \<and>
   ParseLogEntry_process decode_ascii sample_loads \<lparr>parse_errors = 0, valid_logs = 0\<rparr>
     (PBytes ''{\"resource\":\"gce_instance\"}'')
     = ([], \<lparr>parse_errors = 1, valid_logs = 0\<rparr>)"
  by (simp add: sample_bytes ParseLogEntry_process_def parse_body_def extract_fields_def)

section \<open>Enrichment\<close>

lemma length_TRUNCATED: "length TRUNCATED = 14"
  by (simp add: TRUNCATED_def)

lemma enrich_not_dict: "\<not> is_dict element \<Longrightarrow> EnrichLogs_process now element = Inl TypeError"
  by (cases element) (simp_all add: EnrichLogs_process_def is_dict_def)

lemma py_setitem_dict: "py_setitem (PDict d) k = (\<lambda>v. Inr (PDict (AList.update k v d)))"
  by (rule ext) simp

lemma enrich_dict:
  "EnrichLogs_process now (PDict d) =
     (let d2 = AList.update (lit ''pipeline_version'') (PStr (lit ''1.0.0''))
                 (AList.update (lit ''ingestion_time'') (PStr now) d)
      in case map_of d (lit ''message'') of
           None \<Rightarrow> Inr (PDict d2)
         | Some v \<Rightarrow>
             ebind (py_len v) (\<lambda>n.
               if 1000 < n then
                 ebind (py_prefix v 1000) (\<lambda>pre.
                 ebind (py_add_str pre TRUNCATED) (\<lambda>t.
                 Inr (PDict (AList.update (lit ''message'') t d2))))
               else Inr (PDict d2)))"
  by (simp add: EnrichLogs_process_def Let_def update_conv' py_setitem_dict
      split: option.splits cong: if_cong)

lemma enrich_long_only_str:
  assumes "py_len v = Inr n" and "1000 < n"
    and "ebind (py_prefix v 1000) (\<lambda>pre. py_add_str pre TRUNCATED) = Inr t"
  shows "\<exists>s. v = PStr s \<and> 1000 < length s \<and> t = PStr (take 1000 s @ TRUNCATED)"
  using assms by (cases v) auto

text \<open>What one enrichment leaves in the record, for each kind of message.\<close>

lemma enrich_dict_result:
  assumes "EnrichLogs_process now (PDict d) = Inr r"
  obtains d' where "r = PDict d'"
    and "map_of d' (lit ''pipeline_version'') = Some (PStr (lit ''1.0.0''))"
    and "(map_of d' (lit ''message'') = map_of d (lit ''message'') \<and>
          (\<forall>v. map_of d (lit ''message'') = Some v \<longrightarrow> (\<exists>n. py_len v = Inr n \<and> n \<le> 1000))) \<or>
         (\<exists>s. map_of d (lit ''message'') = Some (PStr s) \<and> 1000 < length s \<and>
              map_of d' (lit ''message'') = Some (PStr (take 1000 s @ TRUNCATED)))"
proof -
  let ?d2 = "AList.update (lit ''pipeline_version'') (PStr (lit ''1.0.0''))
               (AList.update (lit ''ingestion_time'') (PStr now) d)"
  have v2: "map_of ?d2 (lit ''pipeline_version'') = Some (PStr (lit ''1.0.0''))"
    and m2: "map_of ?d2 (lit ''message'') = map_of d (lit ''message'')"
    by (simp_all add: update_conv')
  show ?thesis
  proof (cases "map_of d (lit ''message'')")
    case None
    with assms have "r = PDict ?d2"
      by (simp add: enrich_dict Let_def)
    then show ?thesis
      using v2 m2 None by (intro that [of ?d2]) simp_all
  next
    case (Some v)
    show ?thesis
    proof (cases "py_len v")
      case (Inl e)
      with assms Some show ?thesis
        by (simp add: enrich_dict Let_def)
    next
      case (Inr n)
      show ?thesis
      proof (cases "1000 < n")
        case False
        with assms Some Inr have "r = PDict ?d2"
          by (simp add: enrich_dict Let_def)
        then show ?thesis
          using v2 m2 Some Inr False by (intro that [of ?d2]) simp_all
      next
        case True
        with assms Some Inr have
          e: "ebind (py_prefix v 1000) (\<lambda>pre. ebind (py_add_str pre TRUNCATED) (\<lambda>t.
                Inr (PDict (AList.update (lit ''message'') t ?d2)))) = Inr r"
          by (simp add: enrich_dict Let_def)
        then obtain pre where pre: "py_prefix v 1000 = Inr pre"
          by (cases "py_prefix v 1000") simp_all
        with e obtain t where t: "py_add_str pre TRUNCATED = Inr t"
          by (cases "py_add_str pre TRUNCATED") simp_all
        from e pre t have r: "r = PDict (AList.update (lit ''message'') t ?d2)"
          by simp
        from pre t have "ebind (py_prefix v 1000) (\<lambda>pre. py_add_str pre TRUNCATED) = Inr t"
          by simp
        from enrich_long_only_str [OF Inr True this] obtain s where
          s: "v = PStr s" "1000 < length s" "t = PStr (take 1000 s @ TRUNCATED)"
          by blast
        show ?thesis
          using r s Some by (intro that [of "AList.update (lit ''message'') t ?d2"])
            (simp_all add: update_conv')
      qed
    qed
  qed
qed

lemma enrich_str:
  assumes "map_of d (lit ''message'') = Some (PStr m)"
  shows "\<exists>d'. EnrichLogs_process now (PDict d) = Inr (PDict d') \<and>
           map_of d' (lit ''pipeline_version'') = Some (PStr (lit ''1.0.0'')) \<and>
           map_of d' (lit ''message'')
             = Some (PStr (if 1000 < length m then take 1000 m @ TRUNCATED else m))"
  using assms by (simp add: enrich_dict Let_def update_conv')

text \<open>
  Claim C4. When the message of a record is a string of more than 1000 characters,
  enrichment replaces it by a string of length 1000 plus the length of the marker
  \<^verbatim>\<open>...[TRUNCATED]\<close>, whose first 1000 characters are the first 1000 characters of the
  original and whose remainder is the marker. A message string of at most 1000 characters
  is left unchanged.
\<close>

theorem enrich_truncation:
  assumes "field element (lit ''message'') = Some (PStr m)"
  shows "\<exists>r. EnrichLogs_process now element = Inr r \<and>
     (1000 < length m \<longrightarrow>
        (\<exists>m'. field r (lit ''message'') = Some (PStr m') \<and>
              length m' = 1000 + length TRUNCATED \<and>
              take 1000 m' = take 1000 m \<and>
              drop 1000 m' = TRUNCATED)) \<and>
     (length m \<le> 1000 \<longrightarrow> field r (lit ''message'') = Some (PStr m))"
proof -
  from assms obtain d where d: "element = PDict d" "map_of d (lit ''message'') = Some (PStr m)"
    by (cases element) (simp_all add: field_def)
  from enrich_str [OF d(2), of now] obtain d' where
    r: "EnrichLogs_process now (PDict d) = Inr (PDict d')" and
    m: "map_of d' (lit ''message'')
          = Some (PStr (if 1000 < length m then take 1000 m @ TRUNCATED else m))"
    by blast
  show ?thesis
  proof (rule exI [of _ "PDict d'"], intro conjI impI)
    show "EnrichLogs_process now element = Inr (PDict d')"
      by (simp add: d(1) r)
  next
    assume long: "1000 < length m"
    show "\<exists>m'. field (PDict d') (lit ''message'') = Some (PStr m') \<and>
              length m' = 1000 + length TRUNCATED \<and>
              take 1000 m' = take 1000 m \<and> drop 1000 m' = TRUNCATED"
      using long m by (intro exI [of _ "take 1000 m @ TRUNCATED"]) simp
  next
    assume "length m \<le> 1000"
    then show "field (PDict d') (lit ''message'') = Some (PStr m)"
      using m by simp
  qed
qed

text \<open>A message of 1001 characters and a short one.\<close>

theorem enrich_truncation_witness:
  "(\<exists>r. EnrichLogs_process (lit ''2024-05-01T12:00:00'')
            (PDict [(lit ''message'', PStr (replicate 1001 97))]) = Inr r \<and>
        (\<exists>m'. field r (lit ''message'') = Some (PStr m') \<and>
              length m' = 1014 \<and>
              take 1000 m' = replicate 1000 97 \<and>
              drop 1000 m' = lit ''...[TRUNCATED]'')) \<and>
   (\<exists>r. EnrichLogs_process (lit ''2024-05-01T12:00:00'')
            (PDict [(lit ''message'', PStr (lit ''boom''))]) = Inr r \<and>
        field r (lit ''message'') = Some (PStr (lit ''boom'')))"
proof -
  let ?long = "PDict [(lit ''message'', PStr (replicate 1001 97))]"
  let ?short = "PDict [(lit ''message'', PStr (lit ''boom''))]"
  have l: "field ?long (lit ''message'') = Some (PStr (replicate 1001 97))"
    and s: "field ?short (lit ''message'') = Some (PStr (lit ''boom''))"
    by simp_all
  show ?thesis
    using enrich_truncation [OF l, of "lit ''2024-05-01T12:00:00''"]
      enrich_truncation [OF s, of "lit ''2024-05-01T12:00:00''"]
    by (simp add: TRUNCATED_def)
qed

lemma enrich_again:
  assumes "EnrichLogs_process t1 (PDict d) = Inr r"
  shows "\<exists>r'. EnrichLogs_process t2 r = Inr r' \<and>
           field r (lit ''pipeline_version'') = Some (PStr (lit ''1.0.0'')) \<and>
           version_and_message r' = version_and_message r"
proof -
  from assms obtain d' where r: "r = PDict d'"
    and v: "map_of d' (lit ''pipeline_version'') = Some (PStr (lit ''1.0.0''))"
    and m: "(map_of d' (lit ''message'') = map_of d (lit ''message'') \<and>
          (\<forall>v. map_of d (lit ''message'') = Some v \<longrightarrow> (\<exists>n. py_len v = Inr n \<and> n \<le> 1000))) \<or>
         (\<exists>s. map_of d (lit ''message'') = Some (PStr s) \<and> 1000 < length s \<and>
              map_of d' (lit ''message'') = Some (PStr (take 1000 s @ TRUNCATED)))"
    by (rule enrich_dict_result)
  from m show ?thesis
  proof
    assume short: "map_of d' (lit ''message'') = map_of d (lit ''message'') \<and>
          (\<forall>v. map_of d (lit ''message'') = Some v \<longrightarrow> (\<exists>n. py_len v = Inr n \<and> n \<le> 1000))"
    show ?thesis
    proof (cases "map_of d' (lit ''message'')")
      case None
      then show ?thesis
        by (simp add: r v enrich_dict Let_def version_and_message_def update_conv')
    next
      case (Some w)
      with short have "map_of d (lit ''message'') = Some w"
        by simp
      with short obtain n where "py_len w = Inr n" "n \<le> 1000"
        by blast
      with Some show ?thesis
        by (simp add: r v enrich_dict Let_def version_and_message_def update_conv')
    qed
  next
    assume "\<exists>s. map_of d (lit ''message'') = Some (PStr s) \<and> 1000 < length s \<and>
              map_of d' (lit ''message'') = Some (PStr (take 1000 s @ TRUNCATED))"
    then obtain s where "1000 < length s"
      "map_of d' (lit ''message'') = Some (PStr (take 1000 s @ TRUNCATED))"
      by blast
    then show ?thesis
      by (simp add: r v enrich_dict Let_def version_and_message_def update_conv')
  qed
qed

text \<open>
  Claim C7. Enriching twice gives the same outcome as enriching once on every field but
  \<^verbatim>\<open>ingestion_time\<close>: the same exception, or a record with the same
  \<^verbatim>\<open>pipeline_version\<close>, the constant \<^verbatim>\<open>1.0.0\<close>, and the same \<^verbatim>\<open>message\<close> (a truncated
  message is truncated again at the same place).
\<close>

theorem enrich_idempotent:
  "map_sum id version_and_message (enrich_twice t1 t2 element)
     = map_sum id version_and_message (EnrichLogs_process t1 element) \<and>
   (\<forall>r. EnrichLogs_process t1 element = Inr r \<longrightarrow>
        field r (lit ''pipeline_version'') = Some (PStr (lit ''1.0.0'')))"
proof (cases "EnrichLogs_process t1 element")
  case (Inl e)
  then show ?thesis
    by (simp add: enrich_twice_def)
next
  case (Inr r)
  then have "is_dict element"
    using enrich_not_dict [of element t1] by auto
  then obtain d where "element = PDict d"
    by (cases element) (simp_all add: is_dict_def)
  with Inr enrich_again [of t1 d r t2] show ?thesis
    by (auto simp: enrich_twice_def)
qed

text \<open>The message of 1001 characters, enriched twice at different times.\<close>

theorem enrich_idempotent_witness:
  "map_sum id version_and_message
     (enrich_twice (lit ''2024-05-01T12:00:00'') (lit ''2024-05-01T12:00:07'')
        (PDict [(lit ''message'', PStr (replicate 1001 97))]))
     = Inr (Some (PStr (lit ''1.0.0'')), Some (PStr (replicate 1000 97 @ lit ''...[TRUNCATED]'')))"
proof -
  let ?e = "PDict [(lit ''message'', PStr (replicate 1001 97))]"
  have "map_sum id version_and_message (EnrichLogs_process (lit ''2024-05-01T12:00:00'') ?e)
     = Inr (Some (PStr (lit ''1.0.0'')), Some (PStr (replicate 1000 97 @ lit ''...[TRUNCATED]'')))"
    by (simp add: enrich_dict Let_def version_and_message_def update_conv' TRUNCATED_def)
  with enrich_idempotent [of "lit ''2024-05-01T12:00:00''" "lit ''2024-05-01T12:00:07''" ?e]
  show ?thesis
    by simp
qed

text \<open>
  Claim C8 does not hold of the code. The parser copies \<^verbatim>\<open>textPayload\<close> into \<^verbatim>\<open>message\<close>
  whatever its type, and \<^verbatim>\<open>len\<close> of a number raises \<^verbatim>\<open>TypeError\<close> in
  \<^verbatim>\<open>EnrichLogs.process\<close>, which has no handler: for the input \<^verbatim>\<open>{"textPayload":5}\<close> the
  parser yields a record and enrichment of that record fails.
\<close>

theorem enrich_fails_on_number:
  "map (EnrichLogs_process (lit ''2024-05-01T12:00:00''))
     (fst (ParseLogEntry_process decode_ascii sample_loads \<lparr>parse_errors = 0, valid_logs = 0\<rparr>
        (PBytes ''{\"textPayload\":5}'')))
   = [Inl TypeError]"
  by (simp add: sample_bytes ParseLogEntry_process_def parse_body_def extract_fields_def
      enrich_dict Let_def)

section \<open>Shard assignment\<close>

lemma shard_table_name_values:
  "shard_table_name 1 = lit ''real_time_logs_shard_1''"
  "shard_table_name 2 = lit ''real_time_logs_shard_2''"
  "shard_table_name 3 = lit ''real_time_logs_shard_3''"
  "shard_table_name 4 = lit ''real_time_logs_shard_4''"
  by (simp_all add: shard_table_name_def str_int_def str_nat.simps lit_def)

lemma shard_of_str:
  "shard_of hash (PStr s) = Inr (hash (PStr s) mod 4 + 1)"
  by (simp add: shard_of_def py_hash_def)

lemma shard_of_range:
  assumes "shard_of hash pid = Inr n"
  shows "1 \<le> n \<and> n \<le> 4"
proof -
  from assms obtain h where "n = h mod 4 + 1"
    by (cases "py_hash hash pid") (auto simp: shard_of_def)
  then show ?thesis
    by simp
qed

text \<open>
  Claim C5. With the hash function of the run fixed, the shard of a record whose
  \<^verbatim>\<open>project_id\<close> is a string depends on that string only: two records with the same
  \<^verbatim>\<open>project_id\<close> get the same shard number and the same table name, and the shard number
  lies between 1 and 4.
\<close>

theorem shard_deterministic_in_range:
  assumes "py_get e1 (lit ''project_id'') (PStr (lit '''')) = Inr (PStr s)"
    and "py_get e2 (lit ''project_id'') (PStr (lit '''')) = Inr (PStr s)"
  shows "\<exists>n. 1 \<le> n \<and> n \<le> 4 \<and> shard_of hash (PStr s) = Inr n \<and>
           DetermineShardTable_process hash e1 = Inr (shard_table_name n, e1) \<and>
           DetermineShardTable_process hash e2 = Inr (shard_table_name n, e2)"
proof (intro exI conjI)
  show "shard_of hash (PStr s) = Inr (hash (PStr s) mod 4 + 1)"
    by (rule shard_of_str)
  show "1 \<le> hash (PStr s) mod 4 + 1" and "hash (PStr s) mod 4 + 1 \<le> 4"
    by simp_all
  show "DetermineShardTable_process hash e1 = Inr (shard_table_name (hash (PStr s) mod 4 + 1), e1)"
    by (simp add: DetermineShardTable_process_def assms(1) shard_of_str)
  show "DetermineShardTable_process hash e2 = Inr (shard_table_name (hash (PStr s) mod 4 + 1), e2)"
    by (simp add: DetermineShardTable_process_def assms(2) shard_of_str)
qed

text \<open>Two different records of project \<^verbatim>\<open>proj-7\<close>.\<close>

theorem shard_deterministic_in_range_witness:
  "DetermineShardTable_process sample_hash
      (PDict [(lit ''project_id'', PStr (lit ''proj-7'')), (lit ''severity'', PStr (lit ''ERROR''))])
     = Inr (lit ''real_time_logs_shard_4'',
            PDict [(lit ''project_id'', PStr (lit ''proj-7'')), (lit ''severity'', PStr (lit ''ERROR''))]) \<and>
   DetermineShardTable_process sample_hash
      (PDict [(lit ''message'', PStr (lit ''boom'')), (lit ''project_id'', PStr (lit ''proj-7''))])
     = Inr (lit ''real_time_logs_shard_4'',
            PDict [(lit ''message'', PStr (lit ''boom'')), (lit ''project_id'', PStr (lit ''proj-7''))])"
proof -
  let ?e1 = "PDict [(lit ''project_id'', PStr (lit ''proj-7'')), (lit ''severity'', PStr (lit ''ERROR''))]"
  let ?e2 = "PDict [(lit ''message'', PStr (lit ''boom'')), (lit ''project_id'', PStr (lit ''proj-7''))]"
  have g1: "py_get ?e1 (lit ''project_id'') (PStr (lit '''')) = Inr (PStr (lit ''proj-7''))"
    and g2: "py_get ?e2 (lit ''project_id'') (PStr (lit '''')) = Inr (PStr (lit ''proj-7''))"
    by simp_all
  have h: "shard_of sample_hash (PStr (lit ''proj-7'')) = Inr 4"
    by (simp add: shard_of_str sample_hash_def lit_def)
  from shard_deterministic_in_range [OF g1 g2, of sample_hash] h
  show ?thesis
    by (simp add: shard_table_name_values)
qed

section \<open>Configuration\<close>

text \<open>
  Claim C9, as amended. What is supplied at process start is the input subscription, the
  output dataset and the owning project, which determine the subscription read and the
  destination tables. The window size is the constant 60 seconds and the number of shards
  the constant 4, whatever the command line holds: the pipeline has four write stages,
  for the table names of shards 1 to 4, and every shard number lies between 1 and 4.
\<close>

theorem run_pipeline_constants:
  assumes "run_pipeline parse_known_args argv = Some p"
  shows "window_size p = 60 \<and>
         map filter_name (shard_writes p) = map shard_table_name [1, 2, 3, 4] \<and>
         (\<exists>args rest. parse_known_args argv = Some (args, rest) \<and>
            subscription p = input_subscription args \<and>
            map table (shard_writes p)
              = map (\<lambda>n. project_id args @ lit '':'' @ output_dataset args @ lit ''.''
                          @ shard_table_name n) [1, 2, 3, 4]) \<and>
         (\<forall>hash pid n. shard_of hash pid = Inr n \<longrightarrow> 1 \<le> n \<and> n \<le> 4)"
proof -
  from assms obtain args rest where a: "parse_known_args argv = Some (args, rest)"
    by (cases "parse_known_args argv") (auto simp: run_pipeline_def)
  have u: "[1..4] = [1, 2, 3, 4::int]"
    by (simp add: upto.simps)
  from assms a have p: "p = \<lparr>subscription = input_subscription args, window_size = 60,
      shard_writes = map (shard_write_of args) [1, 2, 3, 4]\<rparr>"
    by (simp add: run_pipeline_def u)
  show ?thesis
    using a shard_of_range by (simp add: p shard_write_of_def shard_table_name_def)
qed

text \<open>A command line with the three required options.\<close>

theorem run_pipeline_constants_witness:
  "\<exists>p. run_pipeline sample_parse_known_args
          (map lit [''--input_subscription'', ''logs-sub'', ''--output_dataset'', ''obs'',
                    ''--project_id'', ''central'']) = Some p \<and>
       subscription p = lit ''logs-sub'' \<and>
       window_size p = 60 \<and>
       map filter_name (shard_writes p) = map shard_table_name [1, 2, 3, 4]"
proof -
  let ?argv = "map lit [''--input_subscription'', ''logs-sub'', ''--output_dataset'', ''obs'',
                    ''--project_id'', ''central'']"
  have k: "sample_parse_known_args ?argv = Some (\<lparr>input_subscription = lit ''logs-sub'',
      output_dataset = lit ''obs'', project_id = lit ''central''\<rparr>, [])"
    by (simp add: sample_parse_known_args_def known_options_def)
  then obtain p where p: "run_pipeline sample_parse_known_args ?argv = Some p"
    by (simp add: run_pipeline_def)
  from run_pipeline_constants [OF p] k p show ?thesis
    by auto
qed

text \<open>
  Claim C9 as stated fails: a window duration and a shard count given on the command line
  are passed on as unknown arguments, and the pipeline keeps 60 seconds and 4 shards.
\<close>

theorem window_and_shards_not_configurable:
  "run_pipeline sample_parse_known_args
      (map lit [''--input_subscription'', ''logs-sub'', ''--output_dataset'', ''obs'',
                ''--project_id'', ''central'', ''--window_duration'', ''120'',
                ''--shard_count'', ''8''])
   = Some \<lparr>subscription = lit ''logs-sub'',
            window_size = 60,
            shard_writes =
              [\<lparr>filter_name = lit ''real_time_logs_shard_1'',
                table = lit ''central:obs.real_time_logs_shard_1''\<rparr>,
               \<lparr>filter_name = lit ''real_time_logs_shard_2'',
                table = lit ''central:obs.real_time_logs_shard_2''\<rparr>,
               \<lparr>filter_name = lit ''real_time_logs_shard_3'',
                table = lit ''central:obs.real_time_logs_shard_3''\<rparr>,
               \<lparr>filter_name = lit ''real_time_logs_shard_4'',
                table = lit ''central:obs.real_time_logs_shard_4''\<rparr>]\<rparr>"
proof -
  have u: "[1..4] = [1, 2, 3, 4::int]"
    by (simp add: upto.simps)
  have a: "lit x @ lit y = lit (x @ y)" for x y
    by (simp add: lit_def)
  show ?thesis
    by (simp add: run_pipeline_def sample_parse_known_args_def known_options_def u
        shard_write_of_def shard_table_name_values a)
       (simp add: shard_table_name_def[symmetric] shard_table_name_values)
qed

section \<open>The write stages\<close>

lemma shard_range_cases: "1 \<le> n \<Longrightarrow> n \<le> 4 \<Longrightarrow> n = 1 \<or> n = 2 \<or> n = 3 \<or> n = (4::int)"
  by arith

lemma shard_table_name_inj:
  assumes "1 \<le> n" "n \<le> 4" "1 \<le> m" "m \<le> 4"
  shows "shard_table_name n = shard_table_name m \<longleftrightarrow> n = m"
  using shard_range_cases [OF assms(1,2)] shard_range_cases [OF assms(3,4)]
  by (auto simp: shard_table_name_values)

lemma filter_name_shard_write_of [simp]:
  "filter_name (shard_write_of args n) = shard_table_name n"
  by (simp add: shard_write_of_def shard_table_name_def)

lemma table_shard_write_of_inj:
  assumes "1 \<le> n" "n \<le> 4" "1 \<le> m" "m \<le> 4"
  shows "table (shard_write_of args n) = table (shard_write_of args m) \<longleftrightarrow> n = m"
  using shard_table_name_inj [OF assms] by (simp add: shard_write_of_def)

lemma shard_writes_of_pipeline:
  assumes "run_pipeline parse_known_args argv = Some p"
  obtains args rest where "parse_known_args argv = Some (args, rest)"
    and "shard_writes p = map (shard_write_of args) [1, 2, 3, 4]"
proof -
  from assms obtain args rest where a: "parse_known_args argv = Some (args, rest)"
    by (cases "parse_known_args argv") (auto simp: run_pipeline_def)
  have "[1..4] = [1, 2, 3, 4::int]"
    by (simp add: upto.simps)
  with assms a have "shard_writes p = map (shard_write_of args) [1, 2, 3, 4]"
    by (auto simp: run_pipeline_def)
  with a show ?thesis
    by (rule that)
qed

text \<open>
  The four write stages have four different filters and four different destination tables.
\<close>

lemma write_stages_distinct:
  assumes "run_pipeline parse_known_args argv = Some p"
  shows "distinct (map filter_name (shard_writes p)) \<and> distinct (map table (shard_writes p))"
proof -
  from assms obtain args rest where w: "shard_writes p = map (shard_write_of args) [1, 2, 3, 4]"
    by (rule shard_writes_of_pipeline)
  show ?thesis
    by (simp add: w shard_table_name_inj table_shard_write_of_inj)
qed

text \<open>
  A pair that \<^verbatim>\<open>DetermineShardTable\<close> yields passes the filter of exactly one write stage,
  the stage of its shard number.
\<close>

lemma routed_pair_one_stage:
  assumes "run_pipeline parse_known_args argv = Some p"
    and "DetermineShardTable_process hash element = Inr x"
  shows "\<exists>n args. 1 \<le> n \<and> n \<le> 4 \<and> fst x = shard_table_name n \<and> snd x = element \<and>
           filter (\<lambda>w. fst x = filter_name w) (shard_writes p) = [shard_write_of args n]"
proof -
  from assms(1) obtain args rest where w: "shard_writes p = map (shard_write_of args) [1, 2, 3, 4]"
    by (rule shard_writes_of_pipeline)
  from assms(2) obtain pid n where n: "shard_of hash pid = Inr n" and x: "x = (shard_table_name n, element)"
    by (cases "py_get element (lit ''project_id'') (PStr (lit ''''))";
        cases "shard_of hash (projr (py_get element (lit ''project_id'') (PStr (lit ''''))))")
       (auto simp: DetermineShardTable_process_def)
  from shard_of_range [OF n] have r: "1 \<le> n" "n \<le> 4"
    by simp_all
  have "filter (\<lambda>w. shard_table_name n = filter_name w) (map (shard_write_of args) [1, 2, 3, 4])
          = [shard_write_of args n]"
    using shard_range_cases [OF r] by (auto simp: shard_table_name_values)
  with r x w show ?thesis
    by auto
qed

text \<open>
  A write stage receives the records of its shard, all of them and no others, in the order
  of arrival; a stage whose shard has no record receives nothing.
\<close>

lemma shard_rows_of_stage:
  shows "shard_rows (shard_write_of args n) pairs
           = map snd (filter (\<lambda>x. fst x = shard_table_name n) pairs)"
    and "shard_rows (shard_write_of args n) pairs = [] \<longleftrightarrow>
           (\<forall>x \<in> set pairs. fst x \<noteq> shard_table_name n)"
  by (auto simp: shard_rows_def filter_empty_conv)

end
